theory Spec2Isabelle
  imports Complex_Main
begin

section \<open>GPS tracker: data model\<close>

text \<open>
  The module \<^verbatim>\<open>GPS_tracker.py\<close> reads NMEA sentences, converts the fix-bearing ones into
  \<^verbatim>\<open>Position\<close> objects and keeps the last position and a bounded history.

  Python floats are modelled by exact reals: rounding, infinities and NaN are outside the
  model. Exceptions are values of the type \<open>error\<close>; a function that may raise returns
  \<open>error + 'a\<close> with \<open>Inl\<close> for the exception.
\<close>

datatype error =
    ValueError
  | AttributeError
  | OverflowError
  | SerialException
  | ChecksumError
  | ParseError
  | OtherException string

record position =
  lat :: real
  lon :: real
  alt :: "real option"
  timestamp :: "real option"

section \<open>The builtin conversions used by the converter\<close>

text \<open>
  \<^verbatim>\<open>float(s)\<close> on a string: surrounding whitespace is ignored, then an optional sign, a
  decimal mantissa (digits with at most one point and at least one digit) and an optional
  exponent are read; anything else raises \<^verbatim>\<open>ValueError\<close>. What Python accepts beyond
  this has no counterpart here and reads as \<^verbatim>\<open>ValueError\<close>: the spellings of infinity and
  NaN, the digit-grouping underscore, digits and spaces outside ASCII. A literal too large
  for a double is its exact value here, not infinity.
\<close>

definition is_space :: "char \<Rightarrow> bool" where
  "is_space c = ((9 \<le> (of_char c :: nat) \<and> (of_char c :: nat) \<le> 13)
               \<or> (28 \<le> (of_char c :: nat) \<and> (of_char c :: nat) \<le> 32))"

definition strip :: "string \<Rightarrow> string" where
  "strip s = rev (dropWhile is_space (rev (dropWhile is_space s)))"

definition is_digit :: "char \<Rightarrow> bool" where
  "is_digit c = (48 \<le> (of_char c :: nat) \<and> (of_char c :: nat) \<le> 57)"

definition digit_val :: "char \<Rightarrow> nat" where
  "digit_val c = of_char c - 48"

definition digits_val :: "string \<Rightarrow> nat" where
  "digits_val ds = foldl (\<lambda>a c. 10 * a + digit_val c) 0 ds"

fun read_sign :: "string \<Rightarrow> real \<times> string" where
  "read_sign [] = (1, [])"
| "read_sign (c # cs) =
     (if c = CHR ''+'' then (1, cs) else if c = CHR ''-'' then (-1, cs) else (1, c # cs))"

definition read_mantissa :: "string \<Rightarrow> (real \<times> string) option" where
  "read_mantissa s =
     (let ip = takeWhile is_digit s;
          r1 = dropWhile is_digit s;
          fp = (case r1 of [] \<Rightarrow> [] | c # t \<Rightarrow> if c = CHR ''.'' then takeWhile is_digit t else []);
          r2 = (case r1 of [] \<Rightarrow> [] | c # t \<Rightarrow> if c = CHR ''.'' then dropWhile is_digit t else r1)
      in if ip = [] \<and> fp = [] then None
         else Some (real (digits_val ip) + real (digits_val fp) / 10 ^ length fp, r2))"

definition read_exponent :: "string \<Rightarrow> real option" where
  "read_exponent s =
     (case s of
        [] \<Rightarrow> Some 1
      | c # t \<Rightarrow>
          if c = CHR ''e'' \<or> c = CHR ''E'' then
            (let neg = (case t of [] \<Rightarrow> False | d # _ \<Rightarrow> d = CHR ''-'');
                 ds = (case t of [] \<Rightarrow> []
                       | d # u \<Rightarrow> if d = CHR ''+'' \<or> d = CHR ''-'' then u else t)
             in if ds = [] \<or> \<not> list_all is_digit ds then None
                else Some (if neg then 1 / 10 ^ digits_val ds else 10 ^ digits_val ds))
          else None)"

definition pyfloat :: "string \<Rightarrow> error + real" where
  "pyfloat s =
     (let (sg, body) = read_sign (strip s)
      in case read_mantissa body of
           None \<Rightarrow> Inl ValueError
         | Some (m, rest) \<Rightarrow>
             (case read_exponent rest of
                None \<Rightarrow> Inl ValueError
              | Some f \<Rightarrow> Inr (sg * m * f)))"

text \<open>\<^verbatim>\<open>s.find('.')\<close>: the index of the first occurrence, or \<open>-1\<close>.\<close>

fun find_char :: "char \<Rightarrow> string \<Rightarrow> int" where
  "find_char x [] = -1"
| "find_char x (c # cs) =
     (if c = x then 0 else (let r = find_char x cs in if r = -1 then -1 else r + 1))"

section \<open>Coordinate converter\<close>

text \<open>The choice of \<^verbatim>\<open>deg_len\<close> in \<^verbatim>\<open>_nmea_to_decimal\<close>.\<close>

definition deg_len :: "string \<Rightarrow> int" where
  "deg_len coord_str =
     (let dot_pos = find_char CHR ''.'' coord_str
      in if dot_pos = -1
         then (if int (length coord_str) \<le> 4 then 2 else int (length coord_str) - 4)
         else (if dot_pos \<le> 4 then 2 else dot_pos - 2))"

text \<open>
  \<^verbatim>\<open>_nmea_to_decimal(coord_str, direction)\<close>. \<^verbatim>\<open>deg_len\<close> is at least 2, so the two
  slices are \<open>take\<close> and \<open>drop\<close>.
\<close>

definition nmea_to_decimal :: "string \<Rightarrow> string \<Rightarrow> error + real" where
  "nmea_to_decimal coord_str direction =
     (if coord_str = [] then Inl ValueError
      else
        (let n = nat (deg_len coord_str)
         in case pyfloat (take n coord_str) of
              Inl e \<Rightarrow> Inl e
            | Inr degrees \<Rightarrow>
                (case pyfloat (drop n coord_str) of
                   Inl e \<Rightarrow> Inl e
                 | Inr minutes \<Rightarrow>
                     (let dec = degrees + minutes / 60
                      in Inr (if direction = ''S'' \<or> direction = ''W'' then - dec else dec)))))"

section \<open>Timestamp normalisation\<close>

text \<open>
  \<^verbatim>\<open>time.localtime()\<close> and \<^verbatim>\<open>time.mktime\<close> belong to the platform: the reading of
  the local clock is a \<open>struct_time\<close> handed in, \<^verbatim>\<open>mktime\<close> is a function handed in that
  may raise (\<^verbatim>\<open>OverflowError\<close>, \<^verbatim>\<open>ValueError\<close>).
\<close>

record struct_time =
  tm_year :: int
  tm_mon :: int
  tm_mday :: int
  tm_wday :: int
  tm_yday :: int
  tm_isdst :: int

type_synonym time_tuple = "int \<times> int \<times> int \<times> int \<times> int \<times> int \<times> int \<times> int \<times> int"

type_synonym mktime_fn = "time_tuple \<Rightarrow> error + real"

text \<open>
  The parameters \<^verbatim>\<open>nmea_time\<close>, \<^verbatim>\<open>datestamp\<close> and \<^verbatim>\<open>timestamp\<close> carry no type in
  the source: \<open>None\<close> is Python's \<^verbatim>\<open>None\<close>, \<open>TimeOfDay\<close> and \<open>CalendarDate\<close> are the
  \<^verbatim>\<open>datetime.time\<close> and \<^verbatim>\<open>datetime.date\<close> objects, and \<open>NoTimeAttrs\<close>,
  \<open>NoDateAttrs\<close> stand for any other object, on which reading \<^verbatim>\<open>.hour\<close> or
  \<^verbatim>\<open>.year\<close> raises \<^verbatim>\<open>AttributeError\<close>.
\<close>

datatype timeval = TimeOfDay int int int | NoTimeAttrs

datatype dateval = CalendarDate int int int | NoDateAttrs

fun time_attrs :: "timeval \<Rightarrow> error + (int \<times> int \<times> int)" where
  "time_attrs (TimeOfDay h m s) = Inr (h, m, s)"
| "time_attrs NoTimeAttrs = Inl AttributeError"

fun date_attrs :: "dateval \<Rightarrow> error + (int \<times> int \<times> int)" where
  "date_attrs (CalendarDate y m d) = Inr (y, m, d)"
| "date_attrs NoDateAttrs = Inl AttributeError"

text \<open>The body of the \<^verbatim>\<open>try\<close> block of \<^verbatim>\<open>_nmea_time_to_epoch\<close>.\<close>

definition time_to_epoch_try :: "mktime_fn \<Rightarrow> struct_time \<Rightarrow> timeval \<Rightarrow> error + real" where
  "time_to_epoch_try mktime now t =
     (case time_attrs t of
        Inl e \<Rightarrow> Inl e
      | Inr (h, m, s) \<Rightarrow>
          mktime (tm_year now, tm_mon now, tm_mday now, h, m, s,
                  tm_wday now, tm_yday now, tm_isdst now))"

text \<open>\<^verbatim>\<open>_nmea_time_to_epoch(nmea_time)\<close>: \<^verbatim>\<open>except Exception: return None\<close>.\<close>

definition nmea_time_to_epoch ::
  "mktime_fn \<Rightarrow> struct_time \<Rightarrow> timeval option \<Rightarrow> error + real option" where
  "nmea_time_to_epoch mktime now nmea_time =
     (case nmea_time of
        None \<Rightarrow> Inr None
      | Some t \<Rightarrow>
          (case time_to_epoch_try mktime now t of
             Inr epoch \<Rightarrow> Inr (Some epoch)
           | Inl e \<Rightarrow> Inr None))"

text \<open>The body of the \<^verbatim>\<open>try\<close> block of \<^verbatim>\<open>_nmea_datetime_to_epoch\<close>.\<close>

definition datetime_to_epoch_try :: "mktime_fn \<Rightarrow> dateval \<Rightarrow> timeval \<Rightarrow> error + real" where
  "datetime_to_epoch_try mktime dt t =
     (case date_attrs dt of
        Inl e \<Rightarrow> Inl e
      | Inr (y, mo, d) \<Rightarrow>
          (case time_attrs t of
             Inl e \<Rightarrow> Inl e
           | Inr (h, m, s) \<Rightarrow> mktime (y, mo, d, h, m, s, 0, 0, -1)))"

text \<open>\<^verbatim>\<open>_nmea_datetime_to_epoch(datestamp, timestamp)\<close>.\<close>

definition nmea_datetime_to_epoch ::
  "mktime_fn \<Rightarrow> struct_time \<Rightarrow> dateval option \<Rightarrow> timeval option \<Rightarrow> error + real option" where
  "nmea_datetime_to_epoch mktime now datestamp tstamp =
     (case (datestamp, tstamp) of
        (Some dt, Some t) \<Rightarrow>
          (case datetime_to_epoch_try mktime dt t of
             Inr epoch \<Rightarrow> Inr (Some epoch)
           | Inl e \<Rightarrow> Inr None)
      | _ \<Rightarrow> nmea_time_to_epoch mktime now tstamp)"

section \<open>Great-circle distance\<close>

text \<open>
  \<^verbatim>\<open>haversine_distance_m\<close> over the reals. The program computes in doubles: there the
  value \<^verbatim>\<open>a\<close> can round to more than 1 for two points that are nearly antipodal, and
  \<^verbatim>\<open>math.sqrt(1 - a)\<close> then raises \<^verbatim>\<open>ValueError\<close>; over the reals \<^verbatim>\<open>a\<close> stays between
  0 and 1. Nothing below relies on the distance being computed without an exception, or on
  the outcome of a comparison of the distance with a radius.
\<close>

definition radians :: "real \<Rightarrow> real" where
  "radians x = x * (pi / 180)"

text \<open>\<^verbatim>\<open>math.sqrt\<close> raises \<^verbatim>\<open>ValueError\<close> on a negative argument.\<close>

definition math_sqrt :: "real \<Rightarrow> error + real" where
  "math_sqrt x = (if x < 0 then Inl ValueError else Inr (sqrt x))"

definition atan2 :: "real \<Rightarrow> real \<Rightarrow> real" where
  "atan2 y x =
     (if 0 < x then arctan (y / x)
      else if x < 0 then (if 0 \<le> y then arctan (y / x) + pi else arctan (y / x) - pi)
      else if 0 < y then pi / 2
      else if y < 0 then - (pi / 2)
      else 0)"

text \<open>The quantity \<^verbatim>\<open>a\<close> of \<^verbatim>\<open>haversine_distance_m\<close>.\<close>

definition haversine_a :: "real \<times> real \<Rightarrow> real \<times> real \<Rightarrow> real" where
  "haversine_a p1 p2 =
     (let (lat1, lon1) = p1; (lat2, lon2) = p2;
          phi1 = radians lat1;
          phi2 = radians lat2;
          dphi = radians (lat2 - lat1);
          dlambda = radians (lon2 - lon1)
      in (sin (dphi / 2))\<^sup>2 + cos phi1 * cos phi2 * (sin (dlambda / 2))\<^sup>2)"

definition haversine_distance_m :: "real \<times> real \<Rightarrow> real \<times> real \<Rightarrow> error + real" where
  "haversine_distance_m p1 p2 =
     (let R = 6371000; a = haversine_a p1 p2
      in case math_sqrt a of
           Inl e \<Rightarrow> Inl e
         | Inr sa \<Rightarrow>
             (case math_sqrt (1 - a) of
                Inl e \<Rightarrow> Inl e
              | Inr sb \<Rightarrow> Inr (R * (2 * atan2 sa sb))))"

section \<open>Parsed sentences\<close>

text \<open>
  \<^verbatim>\<open>pynmea2.parse\<close> is a library call: the loop takes it as a function from the stripped
  line to a parsed message or an exception. A message is seen by the loop only through its
  class (\<^verbatim>\<open>GGA\<close>, \<^verbatim>\<open>RMC\<close>, anything else) and the attributes read below. The loop
  reads the altitude as \<^verbatim>\<open>msg.alt\<close>, compares it with \<^verbatim>\<open>None\<close> and \<^verbatim>\<open>''\<close> and then
  passes it to \<^verbatim>\<open>float\<close>: \<open>AltMissing\<close> is a message without an attribute of that name,
  on which the read raises \<^verbatim>\<open>AttributeError\<close>; otherwise the attribute is \<^verbatim>\<open>None\<close>, a
  string or a number.
\<close>

datatype altval = AltMissing | AltNone | AltStr string | AltNum real

record gga =
  gga_lat :: string
  gga_lat_dir :: string
  gga_lon :: string
  gga_lon_dir :: string
  gga_alt :: altval
  gga_timestamp :: "timeval option"

record rmc =
  rmc_lat :: string
  rmc_lat_dir :: string
  rmc_lon :: string
  rmc_lon_dir :: string
  rmc_status :: string
  rmc_datestamp :: "dateval option"
  rmc_timestamp :: "timeval option"

datatype nmea_msg = GGA gga | RMC rmc | OtherSentence

type_synonym parse_fn = "string \<Rightarrow> error + nmea_msg"

text \<open>\<^verbatim>\<open>float(msg.alt) if msg.alt not in (None, '') else None\<close>.\<close>

fun alt_of :: "altval \<Rightarrow> error + real option" where
  "alt_of AltMissing = Inl AttributeError"
| "alt_of AltNone = Inr None"
| "alt_of (AltNum r) = Inr (Some r)"
| "alt_of (AltStr s) =
     (if s = [] then Inr None
      else (case pyfloat s of Inl e \<Rightarrow> Inl e | Inr r \<Rightarrow> Inr (Some r)))"

text \<open>
  The dispatch on the message class in \<^verbatim>\<open>_read_loop\<close>, from \<^verbatim>\<open>pos = None\<close> to the
  end of the \<^verbatim>\<open>elif\<close> branch: the value of \<^verbatim>\<open>pos\<close>, or the exception that leaves the
  block.
\<close>

definition fix_of_gga :: "mktime_fn \<Rightarrow> struct_time \<Rightarrow> gga \<Rightarrow> error + position option" where
  "fix_of_gga mktime now m =
     (if gga_lat m \<noteq> [] \<and> gga_lon m \<noteq> [] then
        (case nmea_to_decimal (gga_lat m) (gga_lat_dir m) of
           Inl e \<Rightarrow> Inl e
         | Inr la \<Rightarrow>
        (case nmea_to_decimal (gga_lon m) (gga_lon_dir m) of
           Inl e \<Rightarrow> Inl e
         | Inr lo \<Rightarrow>
        (case alt_of (gga_alt m) of
           Inl e \<Rightarrow> Inl e
         | Inr al \<Rightarrow>
        (case nmea_time_to_epoch mktime now (gga_timestamp m) of
           Inl e \<Rightarrow> Inl e
         | Inr ts \<Rightarrow> Inr (Some \<lparr>lat = la, lon = lo, alt = al, timestamp = ts\<rparr>)))))
      else Inr None)"

definition fix_of_rmc :: "mktime_fn \<Rightarrow> struct_time \<Rightarrow> rmc \<Rightarrow> error + position option" where
  "fix_of_rmc mktime now m =
     (if rmc_lat m \<noteq> [] \<and> rmc_lon m \<noteq> [] \<and> rmc_status m = ''A'' then
        (case nmea_to_decimal (rmc_lat m) (rmc_lat_dir m) of
           Inl e \<Rightarrow> Inl e
         | Inr la \<Rightarrow>
        (case nmea_to_decimal (rmc_lon m) (rmc_lon_dir m) of
           Inl e \<Rightarrow> Inl e
         | Inr lo \<Rightarrow>
        (case nmea_datetime_to_epoch mktime now (rmc_datestamp m) (rmc_timestamp m) of
           Inl e \<Rightarrow> Inl e
         | Inr ts \<Rightarrow> Inr (Some \<lparr>lat = la, lon = lo, alt = None, timestamp = ts\<rparr>))))
      else Inr None)"

fun fix_of_msg :: "mktime_fn \<Rightarrow> struct_time \<Rightarrow> nmea_msg \<Rightarrow> error + position option" where
  "fix_of_msg mktime now (GGA m) = fix_of_gga mktime now m"
| "fix_of_msg mktime now (RMC m) = fix_of_rmc mktime now m"
| "fix_of_msg mktime now OtherSentence = Inr None"

section \<open>The tracker\<close>

text \<open>What the loop prints.\<close>

datatype report =
    OpenError error
  | CallbackError error
  | ReadLoopError error

text \<open>
  The fields of \<^verbatim>\<open>GPSTracker\<close> that the operations below read or write.
  \<open>ser_open\<close> is \<^verbatim>\<open>self._ser and self._ser.is_open\<close>, \<open>thread_alive\<close> is
  \<^verbatim>\<open>self._thread and self._thread.is_alive()\<close>, \<open>history\<close> and \<open>maxlen\<close> are the deque
  and its bound, \<open>printed\<close> is the standard output.
\<close>

record tracker =
  ser_open :: bool
  thread_alive :: bool
  stop_event :: bool
  callback :: "(position \<Rightarrow> error + unit) option"
  history :: "position list"
  maxlen :: nat
  last_position :: "position option"
  printed :: "report list"

text \<open>
  \<^verbatim>\<open>GPSTracker.__init__\<close>: \<^verbatim>\<open>deque(maxlen=history_size)\<close> raises \<^verbatim>\<open>ValueError\<close> on a
  negative bound and \<^verbatim>\<open>OverflowError\<close> on a bound of \<open>2 ^ 63\<close> or more.
\<close>

definition init :: "int \<Rightarrow> error + tracker" where
  "init history_size =
     (if history_size < 0 then Inl ValueError
      else if 9223372036854775808 \<le> history_size then Inl OverflowError
      else Inr \<lparr>ser_open = False, thread_alive = False, stop_event = False,
                callback = None, history = [], maxlen = nat history_size,
                last_position = None, printed = []\<rparr>)"

definition set_callback :: "(position \<Rightarrow> error + unit) \<Rightarrow> tracker \<Rightarrow> tracker" where
  "set_callback cb st = st\<lparr>callback := Some cb\<rparr>"

text \<open>
  \<^verbatim>\<open>deque.append\<close> on a bounded deque: the item is added on the right, then one item is
  removed on the left when the length exceeds the bound.
\<close>

definition deque_append :: "nat \<Rightarrow> 'a list \<Rightarrow> 'a \<Rightarrow> 'a list" where
  "deque_append n xs x = (let ys = xs @ [x] in if n < length ys then tl ys else ys)"

text \<open>The block under \<^verbatim>\<open>with self._lock\<close> in \<^verbatim>\<open>_read_loop\<close>.\<close>

definition record_position :: "position \<Rightarrow> tracker \<Rightarrow> tracker" where
  "record_position pos st =
     st\<lparr>last_position := Some pos, history := deque_append (maxlen st) (history st) pos\<rparr>"

text \<open>The call of the registered callback, with its \<^verbatim>\<open>try\<close>/\<^verbatim>\<open>except\<close>.\<close>

definition notify :: "position \<Rightarrow> tracker \<Rightarrow> tracker" where
  "notify pos st =
     (case callback st of
        None \<Rightarrow> st
      | Some cb \<Rightarrow>
          (case cb pos of
             Inl e \<Rightarrow> st\<lparr>printed := printed st @ [CallbackError e]\<rparr>
           | Inr u \<Rightarrow> st))"

definition get_last :: "tracker \<Rightarrow> position option" where
  "get_last st = last_position st"

definition get_history :: "tracker \<Rightarrow> position list" where
  "get_history st = history st"

text \<open>
  \<^verbatim>\<open>geofence_check_circle\<close>: \<^verbatim>\<open>None\<close> without a last position, otherwise the
  comparison of the distance with the radius; an exception of the distance computation is
  not caught and leaves the method.
\<close>

definition geofence_check_circle :: "tracker \<Rightarrow> real \<times> real \<Rightarrow> real \<Rightarrow> error + bool option" where
  "geofence_check_circle st center radius_m =
     (case get_last st of
        None \<Rightarrow> Inr None
      | Some l \<Rightarrow>
          (case haversine_distance_m (lat l, lon l) center of
             Inl e \<Rightarrow> Inl e
           | Inr d \<Rightarrow> Inr (Some (d \<le> radius_m))))"

section \<open>The reading loop\<close>

text \<open>
  One pass of the \<^verbatim>\<open>while\<close> loop consumes one \<open>tick\<close>: what \<^verbatim>\<open>readline\<close> did (raised, or
  returned bytes, given here as the text \<^verbatim>\<open>decode(errors="ignore")\<close> makes of them) and
  the reading of the local clock during that pass. \<open>StopRequested\<close> is another thread
  setting the stop event between two passes.
\<close>

datatype read_result = ReadRaises error | ReadLine string

datatype tick = Pass struct_time read_result | StopRequested

definition report_error :: "error \<Rightarrow> tracker \<Rightarrow> tracker" where
  "report_error e st = st\<lparr>printed := printed st @ [ReadLoopError e]\<rparr>"

definition loop_pass ::
  "parse_fn \<Rightarrow> mktime_fn \<Rightarrow> struct_time \<Rightarrow> read_result \<Rightarrow> tracker \<Rightarrow> tracker" where
  "loop_pass parse mktime now r st =
     (case r of
        ReadRaises e \<Rightarrow> report_error e st
      | ReadLine line \<Rightarrow>
          (if line = [] then st
           else let line_str = strip line in
             if line_str = [] then st
             else
               (case parse line_str of
                  Inl e \<Rightarrow>
                    (if e = ChecksumError \<or> e = ParseError then st else report_error e st)
                | Inr msg \<Rightarrow>
                    (case fix_of_msg mktime now msg of
                       Inl e \<Rightarrow> report_error e st
                     | Inr None \<Rightarrow> st
                     | Inr (Some pos) \<Rightarrow> notify pos (record_position pos st)))))"

text \<open>
  The \<^verbatim>\<open>while not self._stop_event.is_set()\<close> loop over the ticks; the thread ends when it
  sees the stop event.
\<close>

fun run_passes :: "parse_fn \<Rightarrow> mktime_fn \<Rightarrow> tracker \<Rightarrow> tick list \<Rightarrow> tracker" where
  "run_passes parse mktime st [] = (if stop_event st then st\<lparr>thread_alive := False\<rparr> else st)"
| "run_passes parse mktime st (t # ts) =
     (if stop_event st then st\<lparr>thread_alive := False\<rparr>
      else (case t of
              StopRequested \<Rightarrow> run_passes parse mktime (st\<lparr>stop_event := True\<rparr>) ts
            | Pass now r \<Rightarrow> run_passes parse mktime (loop_pass parse mktime now r st) ts))"

text \<open>\<^verbatim>\<open>_open_serial\<close>; \<open>opening\<close> is what \<^verbatim>\<open>serial.Serial(...)\<close> does when it is called.\<close>

definition open_serial :: "error option \<Rightarrow> tracker \<Rightarrow> error + tracker" where
  "open_serial opening st =
     (if ser_open st then Inr st
      else (case opening of Some e \<Rightarrow> Inl e | None \<Rightarrow> Inr (st\<lparr>ser_open := True\<rparr>)))"

text \<open>\<^verbatim>\<open>_read_loop\<close>, the body of the reading thread.\<close>

definition read_loop ::
  "parse_fn \<Rightarrow> mktime_fn \<Rightarrow> error option \<Rightarrow> tracker \<Rightarrow> tick list \<Rightarrow> tracker" where
  "read_loop parse mktime opening st ticks =
     (case open_serial opening st of
        Inl e \<Rightarrow> st\<lparr>printed := printed st @ [OpenError e], thread_alive := False\<rparr>
      | Inr st' \<Rightarrow> run_passes parse mktime st' ticks)"

text \<open>
  \<^verbatim>\<open>start\<close>: the value returned to the caller (\<^verbatim>\<open>None\<close>, here \<open>()\<close>; the method has no
  \<^verbatim>\<open>raise\<close> and calls nothing that opens the port) and the tracker with the thread
  created and started. The thread then runs \<^verbatim>\<open>_read_loop\<close> on its own.
\<close>

definition start :: "tracker \<Rightarrow> (error + unit) \<times> tracker" where
  "start st =
     (if thread_alive st then (Inr (), st)
      else (Inr (), st\<lparr>stop_event := False, thread_alive := True\<rparr>))"

text \<open>
  A call of \<^verbatim>\<open>start\<close> followed by the run of the thread it started, if it started one:
  what the caller got back from \<^verbatim>\<open>start\<close>, and the tracker afterwards.
\<close>

definition start_then_run ::
  "parse_fn \<Rightarrow> mktime_fn \<Rightarrow> error option \<Rightarrow> tracker \<Rightarrow> tick list \<Rightarrow> (error + unit) \<times> tracker" where
  "start_then_run parse mktime opening st ticks =
     (let (res, st1) = start st
      in if thread_alive st then (res, st1)
         else (res, read_loop parse mktime opening st1 ticks))"

section \<open>Facts about the conversions\<close>

lemma digit_not_space: "is_digit c \<Longrightarrow> \<not> is_space c"
  by (simp add: is_digit_def is_space_def)

lemma dot_not_space: "\<not> is_space CHR ''.''"
  by (simp add: is_space_def)

lemma dot_not_digit: "\<not> is_digit CHR ''.''"
  by (simp add: is_digit_def)

lemma digit_not_sign: "is_digit c \<Longrightarrow> c \<noteq> CHR ''+'' \<and> c \<noteq> CHR ''-''"
  by (auto simp: is_digit_def)

lemma dropWhile_hd_id: "xs \<noteq> [] \<Longrightarrow> \<not> P (hd xs) \<Longrightarrow> dropWhile P xs = xs"
  by (cases xs) auto

lemma strip_id:
  assumes "s \<noteq> []" "\<not> is_space (hd s)" "\<not> is_space (last s)"
  shows "strip s = s"
proof -
  have a: "dropWhile is_space s = s"
    using assms by (intro dropWhile_hd_id)
  have b: "dropWhile is_space (rev s) = rev s"
    using assms by (intro dropWhile_hd_id) (simp_all add: hd_rev)
  show ?thesis by (simp add: strip_def a b)
qed

lemma takeWhile_digits_all: "list_all is_digit ds \<Longrightarrow> takeWhile is_digit ds = ds"
  by (induction ds) auto

lemma dropWhile_digits_all: "list_all is_digit ds \<Longrightarrow> dropWhile is_digit ds = []"
  by (induction ds) auto

lemma takeWhile_digits_dot:
  "list_all is_digit ds \<Longrightarrow> takeWhile is_digit (ds @ CHR ''.'' # r) = ds"
  by (induction ds) (auto simp: dot_not_digit)

lemma dropWhile_digits_dot:
  "list_all is_digit ds \<Longrightarrow> dropWhile is_digit (ds @ CHR ''.'' # r) = CHR ''.'' # r"
  by (induction ds) (auto simp: dot_not_digit)

lemma pyfloat_digits:
  assumes "ds \<noteq> []" "list_all is_digit ds"
  shows "pyfloat ds = Inr (real (digits_val ds))"
proof -
  from assms obtain c cs where ds: "ds = c # cs" by (cases ds) auto
  with assms have c: "is_digit c" by simp
  have "is_digit (last ds)" using assms by (simp add: list_all_iff)
  then have st: "strip ds = ds"
    using assms c ds by (intro strip_id) (auto simp: digit_not_space)
  have sg: "read_sign ds = (1, ds)"
    using digit_not_sign[OF c] by (simp add: ds)
  have m: "read_mantissa ds = Some (real (digits_val ds), [])"
    using assms by (simp add: read_mantissa_def takeWhile_digits_all dropWhile_digits_all digits_val_def)
  show ?thesis
    by (simp add: pyfloat_def st sg m read_exponent_def)
qed

lemma pyfloat_decimal:
  assumes "ip \<noteq> []" "list_all is_digit ip" "list_all is_digit fp"
  shows "pyfloat (ip @ CHR ''.'' # fp)
         = Inr (real (digits_val ip) + real (digits_val fp) / 10 ^ length fp)"
proof -
  let ?s = "ip @ CHR ''.'' # fp"
  from assms obtain c cs where ip: "ip = c # cs" by (cases ip) auto
  with assms have c: "is_digit c" by simp
  have l: "\<not> is_space (last ?s)"
  proof (cases "fp = []")
    case True then show ?thesis by (simp add: dot_not_space)
  next
    case False
    then have "last ?s = last fp" by simp
    moreover have "is_digit (last fp)" using assms False by (simp add: list_all_iff)
    ultimately show ?thesis by (simp add: digit_not_space)
  qed
  have st: "strip ?s = ?s"
    using c ip l by (intro strip_id) (auto simp: digit_not_space)
  have sg: "read_sign ?s = (1, ?s)"
    using digit_not_sign[OF c] by (simp add: ip)
  have m: "read_mantissa ?s
           = Some (real (digits_val ip) + real (digits_val fp) / 10 ^ length fp, [])"
    using assms
    by (simp add: read_mantissa_def takeWhile_digits_dot dropWhile_digits_dot
        takeWhile_digits_all dropWhile_digits_all)
  show ?thesis
    by (simp add: pyfloat_def st sg m read_exponent_def)
qed

lemma find_char_ge: "- 1 \<le> find_char x s"
  by (induction s) (auto simp: Let_def)

lemma find_char_first:
  "x \<notin> set pre \<Longrightarrow> find_char x (pre @ x # post) = int (length pre)"
  by (induction pre) (auto simp: Let_def)

lemma find_char_absent: "x \<notin> set s \<Longrightarrow> find_char x s = - 1"
  by (induction s) (auto simp: Let_def)

lemma deg_len_dot:
  "CHR ''.'' \<notin> set pre \<Longrightarrow>
   deg_len (pre @ CHR ''.'' # post) = (if length pre \<le> 4 then 2 else int (length pre) - 2)"
  by (simp add: deg_len_def find_char_first)

lemmas conv_eval = pyfloat_def strip_def is_space_def is_digit_def digit_val_def digits_val_def
  read_mantissa_def read_exponent_def deg_len_def nmea_to_decimal_def

lemma nmea_to_decimal_parts:
  assumes "s \<noteq> []"
    and "pyfloat (take (nat (deg_len s)) s) = Inr dg"
    and "pyfloat (drop (nat (deg_len s)) s) = Inr mn"
  shows "nmea_to_decimal s d
         = Inr (if d = ''S'' \<or> d = ''W'' then - (dg + mn / 60) else dg + mn / 60)"
  using assms by (simp add: nmea_to_decimal_def)

section \<open>Facts about the distance\<close>

lemma haversine_a_sym: "haversine_a p1 p2 = haversine_a p2 p1"
proof -
  obtain lat1 lon1 lat2 lon2 where p: "p1 = (lat1, lon1)" "p2 = (lat2, lon2)"
    by (cases p1, cases p2) auto
  have "radians (lat1 - lat2) / 2 = - (radians (lat2 - lat1) / 2)"
       "radians (lon1 - lon2) / 2 = - (radians (lon2 - lon1) / 2)"
    by (simp_all add: radians_def field_simps)
  then have "sin (radians (lat1 - lat2) / 2) = - sin (radians (lat2 - lat1) / 2)"
            "sin (radians (lon1 - lon2) / 2) = - sin (radians (lon2 - lon1) / 2)"
    by (simp_all only: sin_minus)
  then show ?thesis
    by (simp add: p haversine_a_def mult.commute)
qed

section \<open>Facts about the timestamps and the callback\<close>

lemma nmea_time_to_epoch_total: "\<exists>r. nmea_time_to_epoch mk now t = Inr r"
  by (simp add: nmea_time_to_epoch_def split: option.split sum.split)

lemma nmea_datetime_to_epoch_total: "\<exists>r. nmea_datetime_to_epoch mk now d t = Inr r"
  by (cases d; cases t)
     (simp_all add: nmea_datetime_to_epoch_def nmea_time_to_epoch_def split: sum.split)

lemma notify_last_position: "last_position (notify p st) = last_position st"
  by (simp add: notify_def split: option.split sum.split)

lemma notify_history: "history (notify p st) = history st"
  by (simp add: notify_def split: option.split sum.split)

lemma notify_maxlen: "maxlen (notify p st) = maxlen st"
  by (simp add: notify_def split: option.split sum.split)

section \<open>Facts about the dispatch and one pass of the loop\<close>

lemma fix_of_gga_Some:
  assumes "fix_of_gga mk now g = Inr (Some p)"
  shows "nmea_to_decimal (gga_lat g) (gga_lat_dir g) = Inr (lat p)
       \<and> nmea_to_decimal (gga_lon g) (gga_lon_dir g) = Inr (lon p)"
  using assms by (auto simp: fix_of_gga_def split: if_splits sum.splits)

lemma fix_of_rmc_Some:
  assumes "fix_of_rmc mk now r = Inr (Some p)"
  shows "nmea_to_decimal (rmc_lat r) (rmc_lat_dir r) = Inr (lat p)
       \<and> nmea_to_decimal (rmc_lon r) (rmc_lon_dir r) = Inr (lon p)
       \<and> alt p = None \<and> rmc_status r = ''A'' \<and> rmc_lat r \<noteq> [] \<and> rmc_lon r \<noteq> []"
  using assms by (auto simp: fix_of_rmc_def split: if_splits sum.splits)

lemma loop_pass_fix:
  assumes "line \<noteq> []" "strip line \<noteq> []" "parse (strip line) = Inr msg"
    and "fix_of_msg mk now msg = Inr (Some p)"
  shows "loop_pass parse mk now (ReadLine line) st = notify p (record_position p st)"
  using assms by (simp add: loop_pass_def Let_def)

lemma loop_pass_no_fix:
  assumes "parse (strip line) = Inr msg" "fix_of_msg mk now msg = Inr None"
  shows "loop_pass parse mk now (ReadLine line) st = st"
  using assms by (simp add: loop_pass_def Let_def)

section \<open>Facts about the bounded history\<close>

lemma deque_append_length: "length xs \<le> n \<Longrightarrow> length (deque_append n xs x) \<le> n"
  by (auto simp: deque_append_def Let_def)

lemma deque_append_drop:
  assumes "length xs \<le> n"
  shows "deque_append n xs x = drop (Suc (length xs) - n) (xs @ [x])"
proof (cases "n < Suc (length xs)")
  case True
  with assms have k: "Suc (length xs) - n = Suc 0" by simp
  have "drop (Suc 0) (xs @ [x]) = tl (xs @ [x])" by (simp only: drop_Suc drop_0)
  then show ?thesis using True unfolding k by (simp add: deque_append_def)
next
  case False
  then show ?thesis by (simp add: deque_append_def)
qed

lemma deque_append_last:
  "deque_append n xs x \<noteq> [] \<Longrightarrow> last (deque_append n xs x) = x"
  by (cases xs) (auto simp: deque_append_def Let_def split: if_splits)

lemma deque_append_nonempty: "0 < n \<Longrightarrow> deque_append n xs x \<noteq> []"
  by (cases xs) (auto simp: deque_append_def Let_def)

lemma foldl_deque_append_length:
  "length h \<le> n \<Longrightarrow> length (foldl (deque_append n) h ps) \<le> n"
  by (induction ps arbitrary: h) (simp_all add: deque_append_length)

lemma foldl_deque_append_drop:
  "length h \<le> n \<Longrightarrow> foldl (deque_append n) h ps = drop (length h + length ps - n) (h @ ps)"
proof (induction ps rule: rev_induct)
  case Nil
  then show ?case by simp
next
  case (snoc p ps)
  define L where "L = length h + length ps"
  define m where "m = L - n"
  define X where "X = h @ ps"
  have lx: "length X = L" by (simp add: X_def L_def)
  have ih: "foldl (deque_append n) h ps = drop m X"
    using snoc by (simp add: m_def L_def X_def)
  have len: "length (drop m X) \<le> n" by (simp add: lx m_def)
  have a: "Suc (length (drop m X)) - n + m = Suc L - n"
    by (simp add: lx m_def)
  have "foldl (deque_append n) h (ps @ [p]) = deque_append n (drop m X) p"
    by (simp add: ih)
  also have "\<dots> = drop (Suc (length (drop m X)) - n) (drop m X @ [p])"
    using len by (rule deque_append_drop)
  also have "drop m X @ [p] = drop m (X @ [p])"
    by (simp add: lx m_def)
  also have "drop (Suc (length (drop m X)) - n) (drop m (X @ [p])) = drop (Suc L - n) (X @ [p])"
    by (simp only: drop_drop a)
  finally show ?case by (simp add: X_def L_def)
qed

lemma foldl_deque_append_last:
  "ps \<noteq> [] \<Longrightarrow> foldl (deque_append n) h ps \<noteq> [] \<Longrightarrow> last (foldl (deque_append n) h ps) = last ps"
  by (induction ps rule: rev_induct) (simp_all add: deque_append_last)

lemma record_all_fields:
  "history (foldl (\<lambda>s p. record_position p s) st ps) = foldl (deque_append (maxlen st)) (history st) ps
   \<and> maxlen (foldl (\<lambda>s p. record_position p s) st ps) = maxlen st
   \<and> last_position (foldl (\<lambda>s p. record_position p s) st ps)
       = (if ps = [] then last_position st else Some (last ps))"
  by (induction ps rule: rev_induct) (simp_all add: record_position_def)

lemma loop_pass_store:
  "maxlen (loop_pass parse mk now r st) = maxlen st
   \<and> ((history (loop_pass parse mk now r st) = history st
        \<and> last_position (loop_pass parse mk now r st) = last_position st)
      \<or> (\<exists>p. history (loop_pass parse mk now r st) = deque_append (maxlen st) (history st) p
             \<and> last_position (loop_pass parse mk now r st) = Some p))"
  by (auto simp: loop_pass_def Let_def report_error_def record_position_def
        notify_history notify_last_position notify_maxlen
      split: read_result.split sum.split option.split)

lemma run_passes_store:
  "\<exists>ps. history (run_passes parse mk st ticks) = foldl (deque_append (maxlen st)) (history st) ps
       \<and> last_position (run_passes parse mk st ticks)
           = (if ps = [] then last_position st else Some (last ps))
       \<and> maxlen (run_passes parse mk st ticks) = maxlen st"
proof (induction ticks arbitrary: st)
  case Nil
  have "history (run_passes parse mk st []) = foldl (deque_append (maxlen st)) (history st) []
       \<and> last_position (run_passes parse mk st [])
           = (if ([] :: position list) = [] then last_position st else Some (last []))
       \<and> maxlen (run_passes parse mk st []) = maxlen st"
    by simp
  then show ?case by blast
next
  case (Cons t ts)
  show ?case
  proof (cases "stop_event st")
    case True
    then have "history (run_passes parse mk st (t # ts)) = foldl (deque_append (maxlen st)) (history st) []
       \<and> last_position (run_passes parse mk st (t # ts))
           = (if ([] :: position list) = [] then last_position st else Some (last []))
       \<and> maxlen (run_passes parse mk st (t # ts)) = maxlen st"
      by simp
    then show ?thesis by blast
  next
    case False
    show ?thesis
    proof (cases t)
      case StopRequested
      let ?st1 = "st\<lparr>stop_event := True\<rparr>"
      have run: "run_passes parse mk st (t # ts) = run_passes parse mk ?st1 ts"
        using False StopRequested by simp
      from Cons.IH[of ?st1] obtain ps where
        "history (run_passes parse mk ?st1 ts) = foldl (deque_append (maxlen ?st1)) (history ?st1) ps
         \<and> last_position (run_passes parse mk ?st1 ts)
               = (if ps = [] then last_position ?st1 else Some (last ps))
         \<and> maxlen (run_passes parse mk ?st1 ts) = maxlen ?st1"
        by blast
      then have "history (run_passes parse mk st (t # ts))
                = foldl (deque_append (maxlen st)) (history st) ps
              \<and> last_position (run_passes parse mk st (t # ts))
                = (if ps = [] then last_position st else Some (last ps))
              \<and> maxlen (run_passes parse mk st (t # ts)) = maxlen st"
        unfolding run by simp
      then show ?thesis by blast
    next
      case (Pass now r)
      let ?st1 = "loop_pass parse mk now r st"
      have run: "run_passes parse mk st (t # ts) = run_passes parse mk ?st1 ts"
        using False Pass by simp
      from Cons.IH[of ?st1] obtain ps where
        ps: "history (run_passes parse mk ?st1 ts) = foldl (deque_append (maxlen ?st1)) (history ?st1) ps"
            "last_position (run_passes parse mk ?st1 ts)
               = (if ps = [] then last_position ?st1 else Some (last ps))"
            "maxlen (run_passes parse mk ?st1 ts) = maxlen ?st1"
        by blast
      have ml: "maxlen ?st1 = maxlen st" using loop_pass_store[of parse mk now r st] by simp
      from loop_pass_store[of parse mk now r st]
      consider (same) "history ?st1 = history st" "last_position ?st1 = last_position st"
        | (rec) p where "history ?st1 = deque_append (maxlen st) (history st) p"
                        "last_position ?st1 = Some p"
        by blast
      then show ?thesis
      proof cases
        case same
        have "history (run_passes parse mk st (t # ts))
                = foldl (deque_append (maxlen st)) (history st) ps
              \<and> last_position (run_passes parse mk st (t # ts))
                = (if ps = [] then last_position st else Some (last ps))
              \<and> maxlen (run_passes parse mk st (t # ts)) = maxlen st"
          using ps ml run same by simp
        then show ?thesis by blast
      next
        case rec
        have "history (run_passes parse mk st (t # ts))
                = foldl (deque_append (maxlen st)) (history st) (p # ps)
              \<and> last_position (run_passes parse mk st (t # ts))
                = (if p # ps = [] then last_position st else Some (last (p # ps)))
              \<and> maxlen (run_passes parse mk st (t # ts)) = maxlen st"
          using ps ml run rec by simp
        then show ?thesis by blast
      qed
    qed
  qed
qed

lemma read_loop_store:
  "\<exists>ps. history (read_loop parse mk opening st ticks)
           = foldl (deque_append (maxlen st)) (history st) ps
       \<and> last_position (read_loop parse mk opening st ticks)
           = (if ps = [] then last_position st else Some (last ps))
       \<and> maxlen (read_loop parse mk opening st ticks) = maxlen st"
proof (cases "open_serial opening st")
  case (Inl e)
  then have "history (read_loop parse mk opening st ticks)
           = foldl (deque_append (maxlen st)) (history st) []
       \<and> last_position (read_loop parse mk opening st ticks)
           = (if ([] :: position list) = [] then last_position st else Some (last []))
       \<and> maxlen (read_loop parse mk opening st ticks) = maxlen st"
    by (simp add: read_loop_def)
  then show ?thesis by blast
next
  case (Inr st')
  then have f: "history st' = history st" "last_position st' = last_position st"
    "maxlen st' = maxlen st"
    by (auto simp: open_serial_def split: if_splits option.splits)
  have run: "read_loop parse mk opening st ticks = run_passes parse mk st' ticks"
    using Inr by (simp add: read_loop_def)
  from run_passes_store[of parse mk st' ticks] obtain ps where
    "history (run_passes parse mk st' ticks) = foldl (deque_append (maxlen st')) (history st') ps
     \<and> last_position (run_passes parse mk st' ticks)
           = (if ps = [] then last_position st' else Some (last ps))
     \<and> maxlen (run_passes parse mk st' ticks) = maxlen st'"
    by blast
  then have "history (read_loop parse mk opening st ticks)
           = foldl (deque_append (maxlen st)) (history st) ps
       \<and> last_position (read_loop parse mk opening st ticks)
           = (if ps = [] then last_position st else Some (last ps))
       \<and> maxlen (read_loop parse mk opening st ticks) = maxlen st"
    unfolding run f by simp
  then show ?thesis by blast
qed

section \<open>The distance is symmetric\<close>

text \<open>
  Claim C9. The haversine distance does not depend on the order of its two points:
  \<^verbatim>\<open>haversine_distance_m(a, b)\<close> and \<^verbatim>\<open>haversine_distance_m(b, a)\<close> are the same, for
  every two coordinate pairs.
\<close>

theorem haversine_distance_m_symmetric:
  "haversine_distance_m a b = haversine_distance_m b a"
  by (simp add: haversine_distance_m_def haversine_a_sym[of a b])

section \<open>The converter on well-formed angle strings\<close>

text \<open>
  Claim C6. On a string made of at least two degree digits, two minute digits, a point and
  fraction digits, with any direction, the converter returns degrees plus minutes over 60,
  negated exactly when the direction is \<^verbatim>\<open>S\<close> or \<^verbatim>\<open>W\<close>. The two fixtures:
  \<^verbatim>\<open>("4916.45", "N")\<close> gives \<open>49 + 16.45 / 60\<close>, between 49.274166 and 49.274167, and
  \<^verbatim>\<open>("12311.12", "W")\<close> gives \<open>- (123 + 11.12 / 60)\<close>, between -123.185334 and
  -123.185333.
\<close>

theorem nmea_to_decimal_valid:
  "(\<forall>ds m1 m2 fs h.
      list_all is_digit ds \<and> 2 \<le> length ds \<and> is_digit m1 \<and> is_digit m2 \<and> list_all is_digit fs
      \<longrightarrow> nmea_to_decimal (ds @ [m1, m2] @ CHR ''.'' # fs) h
          = Inr ((if h = ''S'' \<or> h = ''W'' then - 1 else 1)
                 * (real (digits_val ds)
                    + (real (digits_val [m1, m2]) + real (digits_val fs) / 10 ^ length fs) / 60)))
   \<and> nmea_to_decimal ''4916.45'' ''N'' = Inr (49 + (16 + 45 / 100) / 60)
   \<and> nmea_to_decimal ''12311.12'' ''W'' = Inr (- (123 + (11 + 12 / 100) / 60))
   \<and> (49.274166 :: real) < 49 + (16 + 45 / 100) / 60 \<and> (49 + (16 + 45 / 100) / 60 :: real) < 49.274167
   \<and> (- 123.185334 :: real) < - (123 + (11 + 12 / 100) / 60)
   \<and> (- (123 + (11 + 12 / 100) / 60) :: real) < - 123.185333"
proof -
  have gen: "nmea_to_decimal (ds @ [m1, m2] @ CHR ''.'' # fs) h
          = Inr ((if h = ''S'' \<or> h = ''W'' then - 1 else 1)
                 * (real (digits_val ds)
                    + (real (digits_val [m1, m2]) + real (digits_val fs) / 10 ^ length fs) / 60))"
    if a: "list_all is_digit ds" "2 \<le> length ds" "is_digit m1" "is_digit m2" "list_all is_digit fs"
    for ds m1 m2 fs h
  proof -
    let ?pre = "ds @ [m1, m2]"
    have nd: "CHR ''.'' \<notin> set ?pre"
      using a dot_not_digit by (auto simp: list_all_iff)
    have len: "nat (deg_len (?pre @ CHR ''.'' # fs)) = length ds"
      using a(2) deg_len_dot[OF nd, of fs] by auto
    have dne: "ds \<noteq> []" using a(2) by auto
    have f1: "pyfloat (take (nat (deg_len (?pre @ CHR ''.'' # fs))) (?pre @ CHR ''.'' # fs))
              = Inr (real (digits_val ds))"
      unfolding len using pyfloat_digits[OF dne a(1)] by simp
    have f2: "pyfloat (drop (nat (deg_len (?pre @ CHR ''.'' # fs))) (?pre @ CHR ''.'' # fs))
              = Inr (real (digits_val [m1, m2]) + real (digits_val fs) / 10 ^ length fs)"
      unfolding len using pyfloat_decimal[of "[m1, m2]" fs] a by simp
    have "nmea_to_decimal (?pre @ CHR ''.'' # fs) h
          = Inr (if h = ''S'' \<or> h = ''W''
                 then - (real (digits_val ds) + (real (digits_val [m1, m2]) + real (digits_val fs) / 10 ^ length fs) / 60)
                 else real (digits_val ds) + (real (digits_val [m1, m2]) + real (digits_val fs) / 10 ^ length fs) / 60)"
      by (rule nmea_to_decimal_parts[OF _ f1 f2]) simp
    then show ?thesis by (simp split: if_splits)
  qed
  have f1: "nmea_to_decimal ''4916.45'' ''N'' = Inr (49 + (16 + 45 / 100) / 60)"
    by (simp add: conv_eval)
  have f2: "nmea_to_decimal ''12311.12'' ''W'' = Inr (- (123 + (11 + 12 / 100) / 60))"
    by (simp add: conv_eval)
  have b: "(49.274166 :: real) < 49 + (16 + 45 / 100) / 60" "(49 + (16 + 45 / 100) / 60 :: real) < 49.274167"
    "(- 123.185334 :: real) < - (123 + (11 + 12 / 100) / 60)"
    "(- (123 + (11 + 12 / 100) / 60) :: real) < - 123.185333"
    by simp_all
  show ?thesis using gen f1 f2 b by blast
qed

text \<open>The general part of C6 at the first fixture.\<close>

theorem nmea_to_decimal_valid_witness:
  "list_all is_digit ''49'' \<and> 2 \<le> length ''49'' \<and> is_digit CHR ''1'' \<and> is_digit CHR ''6''
   \<and> list_all is_digit ''45''
   \<and> nmea_to_decimal (''49'' @ [CHR ''1'', CHR ''6''] @ CHR ''.'' # ''45'') ''N''
       = Inr (49 + (16 + 45 / 100) / 60)"
proof -
  have h: "list_all is_digit ''49'' \<and> 2 \<le> length ''49'' \<and> is_digit CHR ''1'' \<and> is_digit CHR ''6''
   \<and> list_all is_digit ''45''"
    by (simp add: is_digit_def)
  from nmea_to_decimal_valid have
    "nmea_to_decimal (''49'' @ [CHR ''1'', CHR ''6''] @ CHR ''.'' # ''45'') ''N''
     = Inr ((if ''N'' = ''S'' \<or> ''N'' = ''W'' then - 1 else 1)
                 * (real (digits_val ''49'')
                    + (real (digits_val [CHR ''1'', CHR ''6'']) + real (digits_val ''45'') / 10 ^ length ''45'') / 60))"
    using h by blast
  then show ?thesis using h by (simp add: digits_val_def digit_val_def)
qed

section \<open>The degree part of a string with a point\<close>

text \<open>
  Claim C3, as the code has it. For a string whose first point is at index \<open>length pre\<close>,
  the converter reads \<open>length pre - 2\<close> leading characters as degrees when the point is at
  index 4 or more (2 characters for a point at index 4, 3 for a point at index 5) and
  exactly 2 leading characters when the point is at index 4 or less, which for an index
  below 4 is not \<open>length pre - 2\<close>. The rest of the string is the minutes, and the result
  is degrees plus minutes over 60, negated for \<^verbatim>\<open>S\<close> and \<^verbatim>\<open>W\<close>. No length of the
  string is assumed.
\<close>

theorem deg_len_by_dot_position:
  assumes "CHR ''.'' \<notin> set pre" and "s = pre @ CHR ''.'' # post"
  shows "deg_len s = (if length pre \<le> 4 then 2 else int (length pre) - 2)
    \<and> (4 \<le> length pre \<longrightarrow> deg_len s = int (length pre) - 2)
    \<and> (length pre = 4 \<longrightarrow> deg_len s = 2)
    \<and> (length pre = 5 \<longrightarrow> deg_len s = 3)
    \<and> (length pre < 4 \<longrightarrow> deg_len s = 2 \<and> deg_len s \<noteq> int (length pre) - 2)
    \<and> (pyfloat (take (nat (deg_len s)) s) = Inr dg
          \<and> pyfloat (drop (nat (deg_len s)) s) = Inr mn
        \<longrightarrow> nmea_to_decimal s d
            = Inr (if d = ''S'' \<or> d = ''W'' then - (dg + mn / 60) else dg + mn / 60))"
proof -
  have dl: "deg_len s = (if length pre \<le> 4 then 2 else int (length pre) - 2)"
    using assms by (simp add: deg_len_dot)
  have ne: "s \<noteq> []" using assms(2) by simp
  have conv: "nmea_to_decimal s d
            = Inr (if d = ''S'' \<or> d = ''W'' then - (dg + mn / 60) else dg + mn / 60)"
    if "pyfloat (take (nat (deg_len s)) s) = Inr dg"
       "pyfloat (drop (nat (deg_len s)) s) = Inr mn"
    using ne that by (rule nmea_to_decimal_parts)
  show ?thesis using dl conv by auto
qed

text \<open>C3 at the longitude \<^verbatim>\<open>12311.12\<close>, \<^verbatim>\<open>W\<close>.\<close>

theorem deg_len_by_dot_position_witness:
  "CHR ''.'' \<notin> set ''12311'' \<and> ''12311.12'' = ''12311'' @ CHR ''.'' # ''12''
   \<and> deg_len ''12311.12'' = 3
   \<and> pyfloat (take (nat (deg_len ''12311.12'')) ''12311.12'') = Inr 123
   \<and> pyfloat (drop (nat (deg_len ''12311.12'')) ''12311.12'') = Inr (1112 / 100)
   \<and> nmea_to_decimal ''12311.12'' ''W'' = Inr (- (123 + (1112 / 100) / 60))"
proof -
  have h: "CHR ''.'' \<notin> set ''12311''" "''12311.12'' = ''12311'' @ CHR ''.'' # ''12''"
    by simp_all
  have dl: "deg_len ''12311.12'' = 3" by (simp add: conv_eval)
  have f: "pyfloat (take (nat (deg_len ''12311.12'')) ''12311.12'') = Inr 123"
    "pyfloat (drop (nat (deg_len ''12311.12'')) ''12311.12'') = Inr (1112 / 100)"
    unfolding dl by (simp_all add: conv_eval)
  from deg_len_by_dot_position[OF h, where dg = 123 and mn = "1112 / 100" and d = "''W''"] f
  have "nmea_to_decimal ''12311.12'' ''W'' = Inr (- (123 + (1112 / 100) / 60))"
    by simp
  with h dl f show ?thesis by blast
qed

text \<open>
  The claim that the degree part always has \<open>dot_pos - 2\<close> characters fails at
  \<^verbatim>\<open>123.45\<close>: the point is at index 3, the code reads the two characters \<^verbatim>\<open>12\<close> as
  degrees and \<^verbatim>\<open>3.45\<close> as minutes, not one degree digit and \<^verbatim>\<open>23.45\<close> minutes.
\<close>

theorem deg_len_short_counterexample:
  "find_char CHR ''.'' ''123.45'' = 3 \<and> deg_len ''123.45'' = 2 \<and> deg_len ''123.45'' \<noteq> 3 - 2
   \<and> nmea_to_decimal ''123.45'' ''N'' = Inr (12 + (345 / 100) / 60)
   \<and> nmea_to_decimal ''123.45'' ''N'' \<noteq> Inr (1 + (2345 / 100) / 60)"
  by (simp add: conv_eval)

section \<open>The coordinates of an emitted position\<close>

text \<open>
  Claim C1, as the code has it. For every parsed sentence, the latitude and longitude of a
  position that the dispatch emits are exactly what the converter returns for the
  sentence's two angle strings and directions: no range is checked and nothing is clamped,
  so a value outside \<open>[-90, 90]\<close> or \<open>[-180, 180]\<close> is emitted as computed. When the
  converter raises on either string, no position is emitted. The emitted position is the
  one stored as last position by that pass of the loop.
\<close>

theorem fix_coordinates_are_converter_results:
  "(fix_of_msg mk now (GGA g) = Inr (Some p)
      \<longrightarrow> nmea_to_decimal (gga_lat g) (gga_lat_dir g) = Inr (lat p)
        \<and> nmea_to_decimal (gga_lon g) (gga_lon_dir g) = Inr (lon p))
   \<and> (fix_of_msg mk now (RMC r) = Inr (Some p)
      \<longrightarrow> nmea_to_decimal (rmc_lat r) (rmc_lat_dir r) = Inr (lat p)
        \<and> nmea_to_decimal (rmc_lon r) (rmc_lon_dir r) = Inr (lon p))
   \<and> (nmea_to_decimal (gga_lat g) (gga_lat_dir g) = Inl e
        \<or> nmea_to_decimal (gga_lon g) (gga_lon_dir g) = Inl e
      \<longrightarrow> fix_of_msg mk now (GGA g) \<noteq> Inr (Some p))
   \<and> (nmea_to_decimal (rmc_lat r) (rmc_lat_dir r) = Inl e
        \<or> nmea_to_decimal (rmc_lon r) (rmc_lon_dir r) = Inl e
      \<longrightarrow> fix_of_msg mk now (RMC r) \<noteq> Inr (Some p))
   \<and> (line \<noteq> [] \<and> strip line \<noteq> [] \<and> parse (strip line) = Inr msg
        \<and> fix_of_msg mk now msg = Inr (Some p)
      \<longrightarrow> get_last (loop_pass parse mk now (ReadLine line) st) = Some p)"
proof -
  have a: "nmea_to_decimal (gga_lat g) (gga_lat_dir g) = Inr (lat p)
        \<and> nmea_to_decimal (gga_lon g) (gga_lon_dir g) = Inr (lon p)"
    if "fix_of_msg mk now (GGA g) = Inr (Some p)"
    using that fix_of_gga_Some[of mk now g p] by simp
  have b: "nmea_to_decimal (rmc_lat r) (rmc_lat_dir r) = Inr (lat p)
        \<and> nmea_to_decimal (rmc_lon r) (rmc_lon_dir r) = Inr (lon p)"
    if "fix_of_msg mk now (RMC r) = Inr (Some p)"
    using that fix_of_rmc_Some[of mk now r p] by simp
  have c: "get_last (loop_pass parse mk now (ReadLine line) st) = Some p"
    if "line \<noteq> [] \<and> strip line \<noteq> [] \<and> parse (strip line) = Inr msg
        \<and> fix_of_msg mk now msg = Inr (Some p)"
    using that
    by (simp add: loop_pass_fix get_last_def notify_last_position record_position_def)
  show ?thesis using a b c by auto
qed

text \<open>C1 at an active \<^verbatim>\<open>RMC\<close> sentence with the coordinates of the fixtures.\<close>

theorem fix_coordinates_are_converter_results_witness:
  "fix_of_msg (\<lambda>t. Inr 0)
     \<lparr>tm_year = 2024, tm_mon = 1, tm_mday = 1, tm_wday = 0, tm_yday = 1, tm_isdst = 0\<rparr>
     (RMC \<lparr>rmc_lat = ''4916.45'', rmc_lat_dir = ''N'', rmc_lon = ''12311.12'',
           rmc_lon_dir = ''W'', rmc_status = ''A'', rmc_datestamp = None,
           rmc_timestamp = None\<rparr>)
   = Inr (Some \<lparr>lat = 49 + (1645 / 100) / 60, lon = - (123 + (1112 / 100) / 60),
                alt = None, timestamp = None\<rparr>)
   \<and> nmea_to_decimal ''4916.45'' ''N'' = Inr (49 + (1645 / 100) / 60)
   \<and> nmea_to_decimal ''12311.12'' ''W'' = Inr (- (123 + (1112 / 100) / 60))"
proof -
  let ?mk = "(\<lambda>t. Inr 0) :: mktime_fn"
  let ?now = "\<lparr>tm_year = 2024, tm_mon = 1, tm_mday = 1, tm_wday = 0, tm_yday = 1, tm_isdst = 0\<rparr>"
  let ?r = "\<lparr>rmc_lat = ''4916.45'', rmc_lat_dir = ''N'', rmc_lon = ''12311.12'',
           rmc_lon_dir = ''W'', rmc_status = ''A'', rmc_datestamp = None,
           rmc_timestamp = None\<rparr>"
  let ?p = "\<lparr>lat = 49 + (1645 / 100) / 60, lon = - (123 + (1112 / 100) / 60),
                alt = None, timestamp = None\<rparr>"
  have h: "fix_of_msg ?mk ?now (RMC ?r) = Inr (Some ?p)"
    by (simp add: fix_of_rmc_def conv_eval nmea_datetime_to_epoch_def nmea_time_to_epoch_def)
  from fix_coordinates_are_converter_results[where mk = ?mk and now = ?now and r = ?r and p = ?p] h
  have "nmea_to_decimal (rmc_lat ?r) (rmc_lat_dir ?r) = Inr (lat ?p)
        \<and> nmea_to_decimal (rmc_lon ?r) (rmc_lon_dir ?r) = Inr (lon ?p)"
    by blast
  then show ?thesis using h by simp
qed

text \<open>
  The range claimed for an emitted latitude fails at an active \<^verbatim>\<open>RMC\<close> sentence whose
  latitude field is \<^verbatim>\<open>9930.00\<close>: the position emitted has latitude 99.5.
\<close>

theorem fix_out_of_range_counterexample:
  "fix_of_msg (\<lambda>t. Inr 0)
     \<lparr>tm_year = 2024, tm_mon = 1, tm_mday = 1, tm_wday = 0, tm_yday = 1, tm_isdst = 0\<rparr>
     (RMC \<lparr>rmc_lat = ''9930.00'', rmc_lat_dir = ''N'', rmc_lon = ''12311.12'',
           rmc_lon_dir = ''W'', rmc_status = ''A'', rmc_datestamp = None,
           rmc_timestamp = None\<rparr>)
   = Inr (Some \<lparr>lat = 995 / 10, lon = - (123 + (1112 / 100) / 60),
                alt = None, timestamp = None\<rparr>)
   \<and> \<not> ((995 / 10 :: real) \<le> 90)"
  by (simp add: fix_of_rmc_def conv_eval nmea_datetime_to_epoch_def nmea_time_to_epoch_def)

section \<open>The status flag of a recommended-minimum sentence\<close>

text \<open>
  Claim C4, as the code has it. An \<^verbatim>\<open>RMC\<close> sentence whose status is not \<^verbatim>\<open>A\<close> gives
  no position, whatever its coordinate fields, and the pass of the loop that reads it
  leaves the tracker as it was. With status \<^verbatim>\<open>A\<close>, both coordinate fields not empty and
  both converted by the converter, the position has the two converted coordinates and no
  altitude. With status \<^verbatim>\<open>A\<close> and a non-empty coordinate field on which the converter
  raises, the exception leaves the dispatch and there is no position.
\<close>

theorem rmc_requires_active_status:
  "(rmc_status m \<noteq> ''A'' \<longrightarrow> fix_of_msg mk now (RMC m) = Inr None)
   \<and> (rmc_status m \<noteq> ''A'' \<and> parse (strip line) = Inr (RMC m)
        \<longrightarrow> loop_pass parse mk now (ReadLine line) st = st)
   \<and> (rmc_status m = ''A'' \<and> rmc_lat m \<noteq> [] \<and> rmc_lon m \<noteq> []
        \<and> nmea_to_decimal (rmc_lat m) (rmc_lat_dir m) = Inr la
        \<and> nmea_to_decimal (rmc_lon m) (rmc_lon_dir m) = Inr lo
        \<longrightarrow> (\<exists>ts. fix_of_msg mk now (RMC m)
                  = Inr (Some \<lparr>lat = la, lon = lo, alt = None, timestamp = ts\<rparr>)))
   \<and> (rmc_status m = ''A'' \<and> rmc_lat m \<noteq> [] \<and> rmc_lon m \<noteq> []
        \<and> nmea_to_decimal (rmc_lat m) (rmc_lat_dir m) = Inl e
        \<longrightarrow> fix_of_msg mk now (RMC m) = Inl e)
   \<and> (rmc_status m = ''A'' \<and> rmc_lat m \<noteq> [] \<and> rmc_lon m \<noteq> []
        \<and> nmea_to_decimal (rmc_lat m) (rmc_lat_dir m) = Inr la
        \<and> nmea_to_decimal (rmc_lon m) (rmc_lon_dir m) = Inl e
        \<longrightarrow> fix_of_msg mk now (RMC m) = Inl e)"
proof -
  have void: "fix_of_msg mk now (RMC m) = Inr None" if "rmc_status m \<noteq> ''A''"
    using that by (simp add: fix_of_rmc_def)
  have pass: "loop_pass parse mk now (ReadLine line) st = st"
    if "rmc_status m \<noteq> ''A'' \<and> parse (strip line) = Inr (RMC m)"
    using that void by (intro loop_pass_no_fix[where msg = "RMC m"]) simp_all
  obtain ts where ts: "nmea_datetime_to_epoch mk now (rmc_datestamp m) (rmc_timestamp m) = Inr ts"
    using nmea_datetime_to_epoch_total by blast
  have act: "\<exists>ts. fix_of_msg mk now (RMC m)
                  = Inr (Some \<lparr>lat = la, lon = lo, alt = None, timestamp = ts\<rparr>)"
    if "rmc_status m = ''A'' \<and> rmc_lat m \<noteq> [] \<and> rmc_lon m \<noteq> []
        \<and> nmea_to_decimal (rmc_lat m) (rmc_lat_dir m) = Inr la
        \<and> nmea_to_decimal (rmc_lon m) (rmc_lon_dir m) = Inr lo"
    using that ts by (simp add: fix_of_rmc_def)
  have bad1: "fix_of_msg mk now (RMC m) = Inl e"
    if "rmc_status m = ''A'' \<and> rmc_lat m \<noteq> [] \<and> rmc_lon m \<noteq> []
        \<and> nmea_to_decimal (rmc_lat m) (rmc_lat_dir m) = Inl e"
    using that by (simp add: fix_of_rmc_def)
  have bad2: "fix_of_msg mk now (RMC m) = Inl e"
    if "rmc_status m = ''A'' \<and> rmc_lat m \<noteq> [] \<and> rmc_lon m \<noteq> []
        \<and> nmea_to_decimal (rmc_lat m) (rmc_lat_dir m) = Inr la
        \<and> nmea_to_decimal (rmc_lon m) (rmc_lon_dir m) = Inl e"
    using that by (simp add: fix_of_rmc_def)
  show ?thesis using void pass act bad1 bad2 by blast
qed

text \<open>C4 at a void and at an active sentence with the coordinates of the fixtures.\<close>

theorem rmc_requires_active_status_witness:
  "rmc_status \<lparr>rmc_lat = ''4916.45'', rmc_lat_dir = ''N'', rmc_lon = ''12311.12'',
           rmc_lon_dir = ''W'', rmc_status = ''V'', rmc_datestamp = None,
           rmc_timestamp = None\<rparr> \<noteq> ''A''
   \<and> fix_of_msg (\<lambda>t. Inr 0)
     \<lparr>tm_year = 2024, tm_mon = 1, tm_mday = 1, tm_wday = 0, tm_yday = 1, tm_isdst = 0\<rparr>
     (RMC \<lparr>rmc_lat = ''4916.45'', rmc_lat_dir = ''N'', rmc_lon = ''12311.12'',
           rmc_lon_dir = ''W'', rmc_status = ''V'', rmc_datestamp = None,
           rmc_timestamp = None\<rparr>) = Inr None
   \<and> nmea_to_decimal ''4916.45'' ''N'' = Inr (49 + (1645 / 100) / 60)
   \<and> nmea_to_decimal ''12311.12'' ''W'' = Inr (- (123 + (1112 / 100) / 60))
   \<and> (\<exists>ts. fix_of_msg (\<lambda>t. Inr 0)
     \<lparr>tm_year = 2024, tm_mon = 1, tm_mday = 1, tm_wday = 0, tm_yday = 1, tm_isdst = 0\<rparr>
     (RMC \<lparr>rmc_lat = ''4916.45'', rmc_lat_dir = ''N'', rmc_lon = ''12311.12'',
           rmc_lon_dir = ''W'', rmc_status = ''A'', rmc_datestamp = None,
           rmc_timestamp = None\<rparr>)
     = Inr (Some \<lparr>lat = 49 + (1645 / 100) / 60, lon = - (123 + (1112 / 100) / 60),
                  alt = None, timestamp = ts\<rparr>))"
proof -
  let ?mk = "(\<lambda>t. Inr 0) :: mktime_fn"
  let ?now = "\<lparr>tm_year = 2024, tm_mon = 1, tm_mday = 1, tm_wday = 0, tm_yday = 1, tm_isdst = 0\<rparr>"
  let ?v = "\<lparr>rmc_lat = ''4916.45'', rmc_lat_dir = ''N'', rmc_lon = ''12311.12'',
           rmc_lon_dir = ''W'', rmc_status = ''V'', rmc_datestamp = None,
           rmc_timestamp = None\<rparr>"
  let ?a = "\<lparr>rmc_lat = ''4916.45'', rmc_lat_dir = ''N'', rmc_lon = ''12311.12'',
           rmc_lon_dir = ''W'', rmc_status = ''A'', rmc_datestamp = None,
           rmc_timestamp = None\<rparr>"
  have h: "rmc_status ?v \<noteq> ''A''" by simp
  have r1: "fix_of_msg ?mk ?now (RMC ?v) = Inr None"
    using rmc_requires_active_status[where m = ?v and mk = ?mk and now = ?now] h by blast
  have c: "nmea_to_decimal ''4916.45'' ''N'' = Inr (49 + (1645 / 100) / 60)"
    "nmea_to_decimal ''12311.12'' ''W'' = Inr (- (123 + (1112 / 100) / 60))"
    by (simp_all add: conv_eval)
  have k: "rmc_status ?a = ''A'' \<and> rmc_lat ?a \<noteq> [] \<and> rmc_lon ?a \<noteq> []
        \<and> nmea_to_decimal (rmc_lat ?a) (rmc_lat_dir ?a) = Inr (49 + (1645 / 100) / 60)
        \<and> nmea_to_decimal (rmc_lon ?a) (rmc_lon_dir ?a) = Inr (- (123 + (1112 / 100) / 60))"
    using c by simp
  have r2: "\<exists>ts. fix_of_msg ?mk ?now (RMC ?a)
     = Inr (Some \<lparr>lat = 49 + (1645 / 100) / 60, lon = - (123 + (1112 / 100) / 60),
                  alt = None, timestamp = ts\<rparr>)"
    using rmc_requires_active_status[where m = ?a and mk = ?mk and now = ?now
        and la = "49 + (1645 / 100) / 60" and lo = "- (123 + (1112 / 100) / 60)"] k
    by blast
  show ?thesis using h r1 c r2 by blast
qed

text \<open>
  An active \<^verbatim>\<open>RMC\<close> sentence with both coordinate fields not empty need not give a
  position: with the latitude field \<^verbatim>\<open>49x6.45\<close> the converter raises
  \<^verbatim>\<open>ValueError\<close>.
\<close>

theorem rmc_active_malformed_counterexample:
  "rmc_status \<lparr>rmc_lat = ''49x6.45'', rmc_lat_dir = ''N'', rmc_lon = ''12311.12'',
           rmc_lon_dir = ''W'', rmc_status = ''A'', rmc_datestamp = None,
           rmc_timestamp = None\<rparr> = ''A''
   \<and> fix_of_msg (\<lambda>t. Inr 0)
     \<lparr>tm_year = 2024, tm_mon = 1, tm_mday = 1, tm_wday = 0, tm_yday = 1, tm_isdst = 0\<rparr>
     (RMC \<lparr>rmc_lat = ''49x6.45'', rmc_lat_dir = ''N'', rmc_lon = ''12311.12'',
           rmc_lon_dir = ''W'', rmc_status = ''A'', rmc_datestamp = None,
           rmc_timestamp = None\<rparr>) = Inl ValueError"
  by (simp add: fix_of_rmc_def conv_eval)

section \<open>Timestamp normalisation fails soft\<close>

text \<open>
  Claim C7. Both \<^verbatim>\<open>_nmea_time_to_epoch\<close> and \<^verbatim>\<open>_nmea_datetime_to_epoch\<close> return for every
  input and never raise; when the body of the \<^verbatim>\<open>try\<close> block raises, the result is
  \<^verbatim>\<open>None\<close>; when the date or the time is \<^verbatim>\<open>None\<close>, the date and time path returns what
  the time-only path returns for the time, which is \<^verbatim>\<open>None\<close> when the time is \<^verbatim>\<open>None\<close>.
\<close>

theorem timestamp_paths_fail_soft:
  "(\<exists>r. nmea_time_to_epoch mk now t = Inr r)
   \<and> (\<exists>r. nmea_datetime_to_epoch mk now d t = Inr r)
   \<and> (time_to_epoch_try mk now tv = Inl e \<longrightarrow> nmea_time_to_epoch mk now (Some tv) = Inr None)
   \<and> (datetime_to_epoch_try mk dv tv = Inl e
        \<longrightarrow> nmea_datetime_to_epoch mk now (Some dv) (Some tv) = Inr None)
   \<and> (d = None \<or> t = None
        \<longrightarrow> nmea_datetime_to_epoch mk now d t = nmea_time_to_epoch mk now t)
   \<and> nmea_datetime_to_epoch mk now d None = Inr None"
proof -
  have a: "\<exists>r. nmea_time_to_epoch mk now t = Inr r"
    by (simp add: nmea_time_to_epoch_def split: option.split sum.split)
  have b: "\<exists>r. nmea_datetime_to_epoch mk now d t = Inr r"
    by (cases d; cases t)
       (simp_all add: nmea_datetime_to_epoch_def nmea_time_to_epoch_def split: sum.split)
  have c: "nmea_time_to_epoch mk now (Some tv) = Inr None"
    if "time_to_epoch_try mk now tv = Inl e"
    using that by (simp add: nmea_time_to_epoch_def)
  have c': "nmea_datetime_to_epoch mk now (Some dv) (Some tv) = Inr None"
    if "datetime_to_epoch_try mk dv tv = Inl e"
    using that by (simp add: nmea_datetime_to_epoch_def)
  have f: "nmea_datetime_to_epoch mk now d t = nmea_time_to_epoch mk now t"
    if "d = None \<or> t = None"
    using that by (cases d; cases t) (simp_all add: nmea_datetime_to_epoch_def)
  have g: "nmea_datetime_to_epoch mk now d None = Inr None"
    by (cases d) (simp_all add: nmea_datetime_to_epoch_def nmea_time_to_epoch_def)
  show ?thesis using a b c c' f g by blast
qed

text \<open>
  C7 where \<^verbatim>\<open>mktime\<close> raises \<^verbatim>\<open>OverflowError\<close>, where the date object has no
  \<^verbatim>\<open>year\<close>, and where the date is \<^verbatim>\<open>None\<close>.
\<close>

theorem timestamp_paths_fail_soft_witness:
  "time_to_epoch_try (\<lambda>t. Inl OverflowError)
      \<lparr>tm_year = 2024, tm_mon = 1, tm_mday = 1, tm_wday = 0, tm_yday = 1, tm_isdst = 0\<rparr>
      (TimeOfDay 12 35 19) = Inl OverflowError
   \<and> nmea_time_to_epoch (\<lambda>t. Inl OverflowError)
      \<lparr>tm_year = 2024, tm_mon = 1, tm_mday = 1, tm_wday = 0, tm_yday = 1, tm_isdst = 0\<rparr>
      (Some (TimeOfDay 12 35 19)) = Inr None
   \<and> datetime_to_epoch_try (\<lambda>t. Inl OverflowError) NoDateAttrs (TimeOfDay 12 35 19)
      = Inl AttributeError
   \<and> nmea_datetime_to_epoch (\<lambda>t. Inl OverflowError)
      \<lparr>tm_year = 2024, tm_mon = 1, tm_mday = 1, tm_wday = 0, tm_yday = 1, tm_isdst = 0\<rparr>
      (Some NoDateAttrs) (Some (TimeOfDay 12 35 19)) = Inr None
   \<and> nmea_datetime_to_epoch (\<lambda>t. Inl OverflowError)
      \<lparr>tm_year = 2024, tm_mon = 1, tm_mday = 1, tm_wday = 0, tm_yday = 1, tm_isdst = 0\<rparr>
      None (Some (TimeOfDay 12 35 19))
     = nmea_time_to_epoch (\<lambda>t. Inl OverflowError)
      \<lparr>tm_year = 2024, tm_mon = 1, tm_mday = 1, tm_wday = 0, tm_yday = 1, tm_isdst = 0\<rparr>
      (Some (TimeOfDay 12 35 19))"
proof -
  let ?mk = "(\<lambda>t. Inl OverflowError) :: mktime_fn"
  let ?now = "\<lparr>tm_year = 2024, tm_mon = 1, tm_mday = 1, tm_wday = 0, tm_yday = 1, tm_isdst = 0\<rparr>"
  let ?tv = "TimeOfDay 12 35 19"
  have h1: "time_to_epoch_try ?mk ?now ?tv = Inl OverflowError"
    by (simp add: time_to_epoch_try_def)
  have h2: "datetime_to_epoch_try ?mk NoDateAttrs ?tv = Inl AttributeError"
    by (simp add: datetime_to_epoch_try_def)
  have h3: "(None :: dateval option) = None \<or> Some ?tv = None" by simp
  have r1: "nmea_time_to_epoch ?mk ?now (Some ?tv) = Inr None"
    using timestamp_paths_fail_soft[where mk = ?mk and now = ?now and tv = ?tv
        and e = OverflowError] h1 by blast
  have r2: "nmea_datetime_to_epoch ?mk ?now (Some NoDateAttrs) (Some ?tv) = Inr None"
    using timestamp_paths_fail_soft[where mk = ?mk and now = ?now and tv = ?tv
        and dv = NoDateAttrs and e = AttributeError] h2 by blast
  have r3: "nmea_datetime_to_epoch ?mk ?now None (Some ?tv)
            = nmea_time_to_epoch ?mk ?now (Some ?tv)"
    using timestamp_paths_fail_soft[where mk = ?mk and now = ?now and d = None
        and t = "Some ?tv"] h3 by blast
  show ?thesis using h1 h2 r1 r2 r3 by blast
qed

section \<open>The history is bounded and keeps the newest positions\<close>

text \<open>
  Claim C5. The history never holds more than its bound: a run of the reading loop from a
  tracker whose history is within the bound ends within the bound, leaves the bound as it
  was, and its history is the one that recording some sequence of positions gives. After
  recording the positions \<open>ps\<close> one after the other the history is the last
  \<open>maxlen\<close> elements of the old history followed by \<open>ps\<close>, in that order; on a new
  tracker, after \<open>maxlen + k\<close> positions, \<^verbatim>\<open>get_history\<close> returns \<open>ps\<close> without its
  first \<open>k\<close> elements, which are \<open>maxlen\<close> positions.
\<close>

theorem history_bounded_keeps_newest:
  "(length (get_history st) \<le> maxlen st
      \<longrightarrow> length (get_history (read_loop parse mk opening st ticks)) \<le> maxlen st
        \<and> maxlen (read_loop parse mk opening st ticks) = maxlen st
        \<and> (\<exists>ps. get_history (read_loop parse mk opening st ticks)
                  = get_history (foldl (\<lambda>s p. record_position p s) st ps)))
   \<and> (length (get_history st) \<le> maxlen st
      \<longrightarrow> length (get_history (foldl (\<lambda>s p. record_position p s) st ps)) \<le> maxlen st
        \<and> get_history (foldl (\<lambda>s p. record_position p s) st ps)
            = drop (length (get_history st) + length ps - maxlen st) (get_history st @ ps))
   \<and> (init n = Inr st0
      \<longrightarrow> maxlen st0 = nat n \<and> get_history st0 = []
        \<and> length (get_history (foldl (\<lambda>s p. record_position p s) st0 ps)) \<le> maxlen st0
        \<and> get_history (foldl (\<lambda>s p. record_position p s) st0 ps)
            = drop (length ps - maxlen st0) ps)
   \<and> (init n = Inr st0 \<and> length ps = maxlen st0 + k
      \<longrightarrow> get_history (foldl (\<lambda>s p. record_position p s) st0 ps) = drop k ps
        \<and> length (get_history (foldl (\<lambda>s p. record_position p s) st0 ps)) = maxlen st0)"
proof -
  let ?rec = "\<lambda>s p. record_position p s"
  have hist: "get_history (foldl ?rec s ps) = foldl (deque_append (maxlen s)) (history s) ps"
    for s ps
    using record_all_fields[of s ps] by (simp add: get_history_def)
  have b: "length (get_history (foldl ?rec s qs)) \<le> maxlen s
        \<and> get_history (foldl ?rec s qs)
            = drop (length (get_history s) + length qs - maxlen s) (get_history s @ qs)"
    if "length (get_history s) \<le> maxlen s" for s qs
    using that
    by (simp add: hist foldl_deque_append_length)
       (simp add: get_history_def foldl_deque_append_drop)
  have a: "length (get_history (read_loop parse mk opening st ticks)) \<le> maxlen st
        \<and> maxlen (read_loop parse mk opening st ticks) = maxlen st
        \<and> (\<exists>ps. get_history (read_loop parse mk opening st ticks)
                  = get_history (foldl ?rec st ps))"
    if le: "length (get_history st) \<le> maxlen st"
  proof -
    from read_loop_store[of parse mk "opening" st ticks] obtain qs where
      qs: "history (read_loop parse mk opening st ticks)
             = foldl (deque_append (maxlen st)) (history st) qs"
          "maxlen (read_loop parse mk opening st ticks) = maxlen st"
      by blast
    have "get_history (read_loop parse mk opening st ticks) = get_history (foldl ?rec st qs)"
      by (simp add: qs get_history_def record_all_fields)
    moreover have "length (get_history (read_loop parse mk opening st ticks)) \<le> maxlen st"
      using le by (simp add: get_history_def qs foldl_deque_append_length)
    ultimately show ?thesis using qs(2) by blast
  qed
  have i: "maxlen st0 = nat n \<and> get_history st0 = []" if "init n = Inr st0"
    using that by (auto simp: init_def get_history_def split: if_splits)
  have c: "maxlen st0 = nat n \<and> get_history st0 = []
        \<and> length (get_history (foldl ?rec st0 ps)) \<le> maxlen st0
        \<and> get_history (foldl ?rec st0 ps) = drop (length ps - maxlen st0) ps"
    if "init n = Inr st0"
    using i[OF that] b[of st0 ps] by simp
  have d: "get_history (foldl ?rec st0 ps) = drop k ps
        \<and> length (get_history (foldl ?rec st0 ps)) = maxlen st0"
    if "init n = Inr st0 \<and> length ps = maxlen st0 + k"
    using c that by simp
  show ?thesis using a b[of st ps] c d by blast
qed

text \<open>C5 at three positions recorded on a new tracker of capacity 2.\<close>

theorem history_bounded_keeps_newest_witness:
  "init 2 = Inr \<lparr>ser_open = False, thread_alive = False, stop_event = False,
                 callback = None, history = [], maxlen = 2,
                 last_position = None, printed = []\<rparr>
   \<and> length [\<lparr>lat = 1, lon = 1, alt = None, timestamp = None\<rparr>,
              \<lparr>lat = 2, lon = 2, alt = None, timestamp = None\<rparr>,
              \<lparr>lat = 3, lon = 3, alt = None, timestamp = None\<rparr>] = 2 + 1
   \<and> get_history (foldl (\<lambda>s p. record_position p s)
        \<lparr>ser_open = False, thread_alive = False, stop_event = False,
          callback = None, history = [], maxlen = 2,
          last_position = None, printed = []\<rparr>
        [\<lparr>lat = 1, lon = 1, alt = None, timestamp = None\<rparr>,
         \<lparr>lat = 2, lon = 2, alt = None, timestamp = None\<rparr>,
         \<lparr>lat = 3, lon = 3, alt = None, timestamp = None\<rparr>])
     = [\<lparr>lat = 2, lon = 2, alt = None, timestamp = None\<rparr>,
        \<lparr>lat = 3, lon = 3, alt = None, timestamp = None\<rparr>]"
proof -
  let ?fresh = "\<lparr>ser_open = False, thread_alive = False, stop_event = False,
                 callback = None, history = [], maxlen = 2,
                 last_position = None, printed = []\<rparr>"
  let ?ps = "[\<lparr>lat = 1, lon = 1, alt = None, timestamp = None\<rparr>,
              \<lparr>lat = 2, lon = 2, alt = None, timestamp = None\<rparr>,
              \<lparr>lat = 3, lon = 3, alt = None, timestamp = None\<rparr>]"
  have h: "init 2 = Inr ?fresh" by (simp add: init_def)
  have l: "length ?ps = maxlen ?fresh + 1" by simp
  from history_bounded_keeps_newest[where n = 2 and ?st0.0 = ?fresh and ps = ?ps and k = 1] h l
  have "get_history (foldl (\<lambda>s p. record_position p s) ?fresh ?ps) = drop 1 ?ps"
    by blast
  then show ?thesis using h by simp
qed

section \<open>The last position and the newest element of the history\<close>

text \<open>
  Claim C10, as the code has it. After a record operation on a tracker whose capacity is
  not zero the history is not empty and the stored last position is its final element.
  For any capacity: whenever the history is not empty after a record operation, the last
  position is its final element; a new tracker has an empty history and no last position;
  and a run of the reading loop keeps the property that a non-empty history ends with the
  last position. The two fields are written by the one block that \<open>record_position\<close>
  models as a single step.
\<close>

theorem last_position_is_newest_of_history:
  "(0 < maxlen st
      \<longrightarrow> get_history (record_position p st) \<noteq> []
        \<and> get_last (record_position p st) = Some (last (get_history (record_position p st))))
   \<and> (get_history (record_position p st) \<noteq> []
      \<longrightarrow> get_last (record_position p st) = Some (last (get_history (record_position p st))))
   \<and> (init n = Inr st0 \<longrightarrow> get_history st0 = [] \<and> get_last st0 = None)
   \<and> ((get_history st \<noteq> [] \<longrightarrow> get_last st = Some (last (get_history st)))
      \<longrightarrow> (get_history (read_loop parse mk opening st ticks) \<noteq> []
           \<longrightarrow> get_last (read_loop parse mk opening st ticks)
               = Some (last (get_history (read_loop parse mk opening st ticks)))))"
proof -
  have r: "get_last (record_position p st) = Some (last (get_history (record_position p st)))"
    if "get_history (record_position p st) \<noteq> []"
    using that deque_append_last[of "maxlen st" "history st" p]
    by (simp add: get_last_def get_history_def record_position_def)
  have ne: "get_history (record_position p st) \<noteq> []" if "0 < maxlen st"
    using that deque_append_nonempty[of "maxlen st" "history st" p]
    by (simp add: get_history_def record_position_def)
  have i: "get_history st0 = [] \<and> get_last st0 = None" if "init n = Inr st0"
    using that by (auto simp: init_def get_history_def get_last_def split: if_splits)
  have l: "get_last (read_loop parse mk opening st ticks)
               = Some (last (get_history (read_loop parse mk opening st ticks)))"
    if inv: "get_history st \<noteq> [] \<longrightarrow> get_last st = Some (last (get_history st))"
      and nonempty: "get_history (read_loop parse mk opening st ticks) \<noteq> []"
  proof -
    from read_loop_store[of parse mk "opening" st ticks] obtain ps where
      ps: "history (read_loop parse mk opening st ticks)
             = foldl (deque_append (maxlen st)) (history st) ps"
          "last_position (read_loop parse mk opening st ticks)
             = (if ps = [] then last_position st else Some (last ps))"
      by blast
    show ?thesis
    proof (cases "ps = []")
      case True
      then show ?thesis using ps inv nonempty by (simp add: get_history_def get_last_def)
    next
      case False
      have "foldl (deque_append (maxlen st)) (history st) ps \<noteq> []"
        using nonempty ps(1) by (simp add: get_history_def)
      with False have "last (foldl (deque_append (maxlen st)) (history st) ps) = last ps"
        by (rule foldl_deque_append_last)
      then show ?thesis using False ps by (simp add: get_history_def get_last_def)
    qed
  qed
  show ?thesis using r ne i l by blast
qed

text \<open>C10 at a second position recorded on a tracker of capacity 1.\<close>

theorem last_position_is_newest_of_history_witness:
  "0 < maxlen \<lparr>ser_open = False, thread_alive = False, stop_event = False,
                callback = None,
                history = [\<lparr>lat = 1, lon = 1, alt = None, timestamp = None\<rparr>], maxlen = 1,
                last_position = Some \<lparr>lat = 1, lon = 1, alt = None, timestamp = None\<rparr>,
                printed = []\<rparr>
   \<and> get_history (record_position \<lparr>lat = 2, lon = 2, alt = None, timestamp = None\<rparr>
        \<lparr>ser_open = False, thread_alive = False, stop_event = False,
          callback = None,
          history = [\<lparr>lat = 1, lon = 1, alt = None, timestamp = None\<rparr>], maxlen = 1,
          last_position = Some \<lparr>lat = 1, lon = 1, alt = None, timestamp = None\<rparr>,
          printed = []\<rparr>)
       = [\<lparr>lat = 2, lon = 2, alt = None, timestamp = None\<rparr>]
   \<and> get_last (record_position \<lparr>lat = 2, lon = 2, alt = None, timestamp = None\<rparr>
        \<lparr>ser_open = False, thread_alive = False, stop_event = False,
          callback = None,
          history = [\<lparr>lat = 1, lon = 1, alt = None, timestamp = None\<rparr>], maxlen = 1,
          last_position = Some \<lparr>lat = 1, lon = 1, alt = None, timestamp = None\<rparr>,
          printed = []\<rparr>)
       = Some \<lparr>lat = 2, lon = 2, alt = None, timestamp = None\<rparr>"
proof -
  let ?st = "\<lparr>ser_open = False, thread_alive = False, stop_event = False,
                callback = None,
                history = [\<lparr>lat = 1, lon = 1, alt = None, timestamp = None\<rparr>], maxlen = 1,
                last_position = Some \<lparr>lat = 1, lon = 1, alt = None, timestamp = None\<rparr>,
                printed = []\<rparr>"
  let ?p = "\<lparr>lat = 2, lon = 2, alt = None, timestamp = None\<rparr>"
  have h: "0 < maxlen ?st" by simp
  have g: "get_history (record_position ?p ?st) = [?p]"
    by (simp add: get_history_def record_position_def deque_append_def)
  from last_position_is_newest_of_history[where st = ?st and p = ?p] h
  have "get_last (record_position ?p ?st) = Some (last (get_history (record_position ?p ?st)))"
    by blast
  then have "get_last (record_position ?p ?st) = Some ?p"
    unfolding g by simp
  with h g show ?thesis by blast
qed

text \<open>
  With capacity 0 a record operation sets the last position and leaves the history empty,
  so the last position is not an element of the history.
\<close>

theorem zero_capacity_counterexample:
  "init 0 = Inr \<lparr>ser_open = False, thread_alive = False, stop_event = False,
                 callback = None, history = [], maxlen = 0,
                 last_position = None, printed = []\<rparr>
   \<and> get_last (record_position \<lparr>lat = 1, lon = 1, alt = None, timestamp = None\<rparr>
        \<lparr>ser_open = False, thread_alive = False, stop_event = False,
          callback = None, history = [], maxlen = 0,
          last_position = None, printed = []\<rparr>)
       = Some \<lparr>lat = 1, lon = 1, alt = None, timestamp = None\<rparr>
   \<and> get_history (record_position \<lparr>lat = 1, lon = 1, alt = None, timestamp = None\<rparr>
        \<lparr>ser_open = False, thread_alive = False, stop_event = False,
          callback = None, history = [], maxlen = 0,
          last_position = None, printed = []\<rparr>) = []"
  by (simp add: init_def get_last_def get_history_def record_position_def deque_append_def)

section \<open>A failure to open the port\<close>

text \<open>
  Claim C2, as the code has it. \<^verbatim>\<open>start\<close> always returns normally. When no thread is
  alive, the port is not open and opening it fails with \<open>e\<close>, the caller of \<^verbatim>\<open>start\<close>
  still gets the normal return; the failure is caught in the reading thread, which prints
  it and ends without a pass of the loop: the port stays closed, the thread is no longer
  alive, and last position and history are as before.
\<close>

theorem open_failure_stays_in_thread:
  "fst (start st) = Inr ()
   \<and> (\<not> thread_alive st \<and> \<not> ser_open st
      \<longrightarrow> fst (start_then_run parse mk (Some e) st ticks) = Inr ()
        \<and> printed (snd (start_then_run parse mk (Some e) st ticks)) = printed st @ [OpenError e]
        \<and> \<not> thread_alive (snd (start_then_run parse mk (Some e) st ticks))
        \<and> \<not> ser_open (snd (start_then_run parse mk (Some e) st ticks))
        \<and> last_position (snd (start_then_run parse mk (Some e) st ticks)) = last_position st
        \<and> history (snd (start_then_run parse mk (Some e) st ticks)) = history st)"
  by (simp add: start_def start_then_run_def read_loop_def open_serial_def)

text \<open>C2 at a new tracker with one line waiting to be read.\<close>

theorem open_failure_stays_in_thread_witness:
  "\<not> thread_alive \<lparr>ser_open = False, thread_alive = False, stop_event = False,
                callback = None, history = [], maxlen = 1000,
                last_position = None, printed = []\<rparr>
   \<and> \<not> ser_open \<lparr>ser_open = False, thread_alive = False, stop_event = False,
                callback = None, history = [], maxlen = 1000,
                last_position = None, printed = []\<rparr>
   \<and> printed (snd (start_then_run (\<lambda>s. Inl ParseError) (\<lambda>t. Inr 0) (Some SerialException)
        \<lparr>ser_open = False, thread_alive = False, stop_event = False,
          callback = None, history = [], maxlen = 1000,
          last_position = None, printed = []\<rparr>
        [Pass \<lparr>tm_year = 2024, tm_mon = 1, tm_mday = 1, tm_wday = 0, tm_yday = 1, tm_isdst = 0\<rparr>
              (ReadLine ''$GPRMC'')]))
     = [OpenError SerialException]"
proof -
  let ?st = "\<lparr>ser_open = False, thread_alive = False, stop_event = False,
                callback = None, history = [], maxlen = 1000,
                last_position = None, printed = []\<rparr>"
  have h: "\<not> thread_alive ?st \<and> \<not> ser_open ?st" by simp
  from open_failure_stays_in_thread[where st = ?st and e = SerialException
      and parse = "\<lambda>s. Inl ParseError" and mk = "\<lambda>t. Inr 0"
      and ticks = "[Pass \<lparr>tm_year = 2024, tm_mon = 1, tm_mday = 1, tm_wday = 0, tm_yday = 1, tm_isdst = 0\<rparr>
              (ReadLine ''$GPRMC'')]"] h
  have "printed (snd (start_then_run (\<lambda>s. Inl ParseError) (\<lambda>t. Inr 0) (Some SerialException) ?st
        [Pass \<lparr>tm_year = 2024, tm_mon = 1, tm_mday = 1, tm_wday = 0, tm_yday = 1, tm_isdst = 0\<rparr>
              (ReadLine ''$GPRMC'')]))
        = printed ?st @ [OpenError SerialException]"
    by blast
  then show ?thesis using h by simp
qed

text \<open>
  The failure is not reported by \<^verbatim>\<open>start\<close>: on a new tracker whose port cannot be opened
  \<^verbatim>\<open>start\<close> returns normally, not the exception, which is only printed by the thread.
\<close>

theorem start_returns_normally_counterexample:
  "init 1000 = Inr \<lparr>ser_open = False, thread_alive = False, stop_event = False,
                    callback = None, history = [], maxlen = 1000,
                    last_position = None, printed = []\<rparr>
   \<and> fst (start_then_run (\<lambda>s. Inl ParseError) (\<lambda>t. Inr 0) (Some SerialException)
        \<lparr>ser_open = False, thread_alive = False, stop_event = False,
          callback = None, history = [], maxlen = 1000,
          last_position = None, printed = []\<rparr> []) = Inr ()
   \<and> fst (start_then_run (\<lambda>s. Inl ParseError) (\<lambda>t. Inr 0) (Some SerialException)
        \<lparr>ser_open = False, thread_alive = False, stop_event = False,
          callback = None, history = [], maxlen = 1000,
          last_position = None, printed = []\<rparr> []) \<noteq> Inl SerialException
   \<and> printed (snd (start_then_run (\<lambda>s. Inl ParseError) (\<lambda>t. Inr 0) (Some SerialException)
        \<lparr>ser_open = False, thread_alive = False, stop_event = False,
          callback = None, history = [], maxlen = 1000,
          last_position = None, printed = []\<rparr> [])) = [OpenError SerialException]"
  by (simp add: init_def start_def start_then_run_def read_loop_def open_serial_def)

end
